theory Spec2Isabelle
  imports Complex_Main "HOL-Library.Word" "HOL-Library.Signed_Division"
begin

unbundle bit_operations_syntax

text \<open>
  A shallow embedding of the Go package \<open>wsqlx\<close> (sqlx-wrapper): the pagination
  arithmetic, the error values, the tracing spans, the two data access facades found in
  the repository with their transaction runners, and theorems about them. The database
  driver, the query builder and the tracing backend are outside the package; their
  answers are parameters of the model.
\<close>

section \<open>Machine integers of the Go source\<close>

text \<open>
  Go's \<open>int64\<close> and \<open>uint64\<close> are 64-bit words. Arithmetic wraps around; the signed
  reading of a word is \<open>sint\<close>, the unsigned one \<open>uint\<close>. The conversion
  \<open>uint64(x)\<close> of an \<open>int64\<close> keeps the bit pattern, so it is the identity on words.
  Go's \<open>/\<close> and \<open>%\<close> on signed integers truncate towards zero
  (\<open>sdiv\<close> and \<open>smod\<close> on \<open>int\<close>); the quotient is stored back into 64 bits.
\<close>

type_synonym int64 = "64 word"
type_synonym uint64 = "64 word"

definition int64_div :: "int64 \<Rightarrow> int64 \<Rightarrow> int64" where
  "int64_div a b = word_of_int (sint a sdiv sint b)"

definition int64_mod :: "int64 \<Rightarrow> int64 \<Rightarrow> int64" where
  "int64_mod a b = word_of_int (sint a smod sint b)"

section \<open>Pagination calculator (src/unnamed/part_001)\<close>

record PaginationInput =
  Page :: int64
  PageSize :: int64

record PaginationOutput =
  out_Page :: int64
  out_PageSize :: int64
  out_PageCount :: int64
  out_TotalData :: int64

text \<open>\<open>func (p PaginationInput) Offset() int64\<close>\<close>

definition Offset :: "PaginationInput \<Rightarrow> int64" where
  "Offset p = (if 0 <s Page p then (Page p - 1) * PageSize p else 0)"

text \<open>
  \<open>func getPageCount(pageSize, totalData int64) int64\<close>. The division is only reached
  with \<open>pageSize > 0\<close>, so Go's division-by-zero panic has no branch here.
\<close>

definition getPageCount :: "int64 \<Rightarrow> int64 \<Rightarrow> int64" where
  "getPageCount pageSize totalData =
     (if 0 <s pageSize then
        (if totalData \<le>s pageSize then 1
         else if int64_mod totalData pageSize = 0 then int64_div totalData pageSize
         else int64_div totalData pageSize + 1)
      else 1)"

definition CreatePaginationOutput :: "PaginationInput \<Rightarrow> int64 \<Rightarrow> PaginationOutput" where
  "CreatePaginationOutput input totalData =
     (let pageCount = getPageCount (PageSize input) totalData
      in \<lparr>out_Page = Page input, out_PageSize = PageSize input,
          out_PageCount = pageCount, out_TotalData = totalData\<rparr>)"

section \<open>Errors (package errors, error.go)\<close>

text \<open>
  A Go \<open>error\<close> is \<open>nil\<close> or an error value. The values the package builds are:
  \<open>errors.New(text)\<close> (a sentinel; distinct sentinels carry distinct texts),
  \<open>fmt.Errorf(prefix + "%w", err)\<close>, which wraps one error, and \<open>errors.Join\<close>, which
  holds a list of errors. Error values are compared as values.
\<close>

datatype goerr =
    ErrNew string
  | ErrWrap string goerr
  | ErrJoin "goerr list"

type_synonym error = "goerr option"

text \<open>
  \<open>errors.Is(err, target)\<close> for non-nil arguments: it compares \<open>err\<close> with the target,
  then follows \<open>Unwrap() error\<close>, or every member of \<open>Unwrap() []error\<close> in order.
\<close>

fun errors_Is :: "goerr \<Rightarrow> goerr \<Rightarrow> bool"
  and errors_Is_any :: "goerr list \<Rightarrow> goerr \<Rightarrow> bool" where
  "errors_Is (ErrNew s) target = (ErrNew s = target)"
| "errors_Is (ErrWrap m e) target = (ErrWrap m e = target \<or> errors_Is e target)"
| "errors_Is (ErrJoin es) target = (ErrJoin es = target \<or> errors_Is_any es target)"
| "errors_Is_any [] target = False"
| "errors_Is_any (e # es) target = (errors_Is e target \<or> errors_Is_any es target)"

text \<open>\<open>err.Error()\<close>: a joined error prints its members on separate lines.\<close>

fun Error_text :: "goerr \<Rightarrow> string"
  and Error_lines :: "goerr list \<Rightarrow> string" where
  "Error_text (ErrNew s) = s"
| "Error_text (ErrWrap m e) = m @ Error_text e"
| "Error_text (ErrJoin es) = Error_lines es"
| "Error_lines [] = []"
| "Error_lines (e # es) = Error_text e @ (if es = [] then [] else CHR 0x0A # Error_lines es)"

text \<open>\<open>errors.Join(errs...)\<close> drops the nil arguments and is nil when none is left.\<close>

definition errors_Join :: "error list \<Rightarrow> error" where
  "errors_Join errs =
     (case List.map_filter (\<lambda>e. e) errs of [] \<Rightarrow> None | e # es \<Rightarrow> Some (ErrJoin (e # es)))"

definition sql_ErrNoRows :: goerr where
  "sql_ErrNoRows = ErrNew ''sql: no rows in result set''"

definition ErrRecordNoRows :: goerr where
  "ErrRecordNoRows = ErrNew ''record not found''"

text \<open>Decimal rendering (\<open>%d\<close>).\<close>

fun show_nat :: "nat \<Rightarrow> string" where
  "show_nat n = (if n < 10 then [char_of (48 + n)] else show_nat (n div 10) @ [char_of (48 + n mod 10)])"

definition show_int :: "int \<Rightarrow> string" where
  "show_int i = (if i < 0 then CHR ''-'' # show_nat (nat (- i)) else show_nat (nat i))"

text \<open>
  \<open>errTracer(err)\<close> wraps \<open>err\<close> behind the function name and line of its caller
  (\<open>runtime.Callers(2, ...)\<close>); every caller passes its own frame here. With a nil
  argument \<open>%w\<close> wraps nothing.
\<close>

definition pkg :: string where
  "pkg = ''github.com/SyaibanAhmadRamadhan/sqlx-wrapper''"

definition errTracer :: "string \<Rightarrow> nat \<Rightarrow> error \<Rightarrow> goerr" where
  "errTracer function line err =
     (case err of
        Some e \<Rightarrow> ErrWrap (pkg @ function @ '':'' @ show_nat line @ '': '') e
      | None \<Rightarrow> ErrNew (pkg @ function @ '':'' @ show_nat line @ '': %!w(<nil>)''))"

section \<open>Panics and results\<close>

text \<open>
  A call either returns or panics. The payload of a panic is a run-time error (a nil
  dereference, a slice bound out of range) or a value the caller's code passed to
  \<open>panic\<close>.
\<close>

datatype panic = NilDereference | SliceBounds nat nat | PanicValue string

datatype 'a outcome = Returns 'a | Panics panic

definition panic_text :: "panic \<Rightarrow> string" where
  "panic_text p =
     (case p of
        NilDereference \<Rightarrow> ''runtime error: invalid memory address or nil pointer dereference''
      | SliceBounds hi len \<Rightarrow>
          ''runtime error: slice bounds out of range [:'' @ show_nat hi @ ''] with length '' @ show_nat len
      | PanicValue v \<Rightarrow> v)"

section \<open>Tracing spans (util.go)\<close>

datatype attr_value = AString string | ABool bool | AInt int | AStringSlice "string list"

record span =
  span_name :: string
  span_attrs :: "(string \<times> attr_value) list"
  span_errors :: "goerr list"
  span_status :: "string option"
  span_ended :: bool

definition tracer_Start :: "string \<Rightarrow> (string \<times> attr_value) list \<Rightarrow> span" where
  "tracer_Start name as =
     \<lparr>span_name = name, span_attrs = as, span_errors = [], span_status = None, span_ended = False\<rparr>"

definition span_End :: "span \<Rightarrow> span" where
  "span_End sp = sp\<lparr>span_ended := True\<rparr>"

definition SetAttributes :: "span \<Rightarrow> string \<Rightarrow> string \<Rightarrow> span" where
  "SetAttributes sp k v = sp\<lparr>span_attrs := span_attrs sp @ [(k, AString v)]\<rparr>"

text \<open>\<open>func recordError(span trace.Span, err error)\<close>\<close>

definition recordError :: "span \<Rightarrow> error \<Rightarrow> span" where
  "recordError sp err =
     (case err of
        None \<Rightarrow> sp
      | Some e \<Rightarrow>
          if \<not> errors_Is e sql_ErrNoRows
          then sp\<lparr>span_errors := span_errors sp @ [e], span_status := Some (Error_text e)\<rparr>
          else sp)"

definition DBTxIsolationLevel :: string where "DBTxIsolationLevel = ''db.pg.tx.isolation''"
definition DBTxReadOnly :: string where "DBTxReadOnly = ''db.pg.tx.readonly''"
definition DBQueryTextKey :: string where "DBQueryTextKey = ''db.pg.query.text''"
definition DBOperationNameKey :: string where "DBOperationNameKey = ''db.pg.operation_name''"
definition DBArgs :: string where "DBArgs = ''db.pg.args''"
definition sqlOperationUnknown :: string where "sqlOperationUnknown = ''UNKNOWN''"

text \<open>
  A query argument is kept as the name of its dynamic type and its \<open>%v\<close> rendering,
  which is all \<open>makeParamAttr\<close> reads of it.
\<close>

type_synonym arg = "string \<times> string"

definition makeParamAttr :: "arg list \<Rightarrow> string \<times> attr_value" where
  "makeParamAttr args = (DBArgs, AStringSlice (map (\<lambda>(t, v). t @ '': '' @ v) args))"

section \<open>The database handles (database/sql, sqlx)\<close>

text \<open>
  The driver is outside the repository: a handle is the record of what its calls
  answer. \<open>'d\<close> is the type of the value a successful scan stores through \<open>dest\<close>.
\<close>

record Rows =
  Rows_Close :: error

record 'd Row =
  Row_Scan :: "goerr + 'd"
  Row_StructScan :: "goerr + 'd"

type_synonym sql_Result = "int64 \<times> int64"

record 'd executor =
  QueryxContext :: "string \<Rightarrow> arg list \<Rightarrow> goerr + Rows"
  ExecContext :: "string \<Rightarrow> arg list \<Rightarrow> goerr + sql_Result"
  QueryRowxContext :: "string \<Rightarrow> arg list \<Rightarrow> 'd Row"

record TxOptions =
  Isolation :: int
  ReadOnly :: bool

record 'd Tx =
  Tx_executor :: "'d executor"
  Tx_Rollback :: error
  Tx_Commit :: error

record 'd DB =
  DB_executor :: "'d executor"
  BeginTxx :: "TxOptions \<Rightarrow> goerr + 'd Tx"

text \<open>\<open>func (i IsolationLevel) String() string\<close> of database/sql.\<close>

definition IsolationLevel_String :: "int \<Rightarrow> string" where
  "IsolationLevel_String i =
     (if i = 0 then ''Default''
      else if i = 1 then ''Read Uncommitted''
      else if i = 2 then ''Read Committed''
      else if i = 3 then ''Write Committed''
      else if i = 4 then ''Repeatable Read''
      else if i = 5 then ''Snapshot''
      else if i = 6 then ''Serializable''
      else if i = 7 then ''Linearizable''
      else ''IsolationLevel('' @ show_int i @ '')'')"

text \<open>
  What one call leaves behind: how it ended, the spans it ended (in order), and the
  calls it made on the database handles (in order).
\<close>

datatype event =
    EvBeginTxx | EvWork | EvRollback | EvCommit
  | EvQueryx string "arg list" | EvExec string "arg list" | EvQueryRowx string "arg list"
  | EvScan | EvStructScan | EvCallback | EvRowsClose

record 'a run =
  run_result :: "'a outcome"
  run_spans :: "span list"
  run_events :: "event list"

definition tx_span_opts :: "TxOptions \<Rightarrow> (string \<times> attr_value) list" where
  "tx_span_opts opt =
     [(DBTxIsolationLevel, AString (IsolationLevel_String (Isolation opt))),
      (DBTxReadOnly, ABool (ReadOnly opt))]"

section \<open>The first facade and its transaction runner (src/unnamed/part_004, db_tx_impl.go)\<close>

text \<open>
  The repository holds two facades. The first one keeps only the executor;
  \<open>NewRdbms(db queryExecutor)\<close> builds it, and \<open>sqlxTransaction.DoTx\<close> hands one bound to
  the open transaction to the work function.
\<close>

record 'd rdbms0 =
  db0 :: "'d executor"

definition NewRdbms0 :: "'d executor \<Rightarrow> 'd rdbms0" where
  "NewRdbms0 db = \<lparr>db0 = db\<rparr>"

record 'd sqlxTransaction =
  stx_db :: "'d DB"

definition NewSqlxTransaction :: "'d DB \<Rightarrow> 'd sqlxTransaction" where
  "NewSqlxTransaction db = \<lparr>stx_db = db\<rparr>"

text \<open>
  \<open>func (s *sqlxTransaction) DoTx(ctx, opt *sql.TxOptions, fn func(tx Rdbms) (err error)) (err error)\<close>.
  \<open>opt\<close> is a pointer: reading \<open>opt.Isolation\<close> of a nil pointer panics before the span
  starts. The deferred function is the three-way case on how \<open>fn\<close> ended.
\<close>

definition sqlxTransaction_DoTx ::
  "'d sqlxTransaction \<Rightarrow> TxOptions option \<Rightarrow> ('d rdbms0 \<Rightarrow> error outcome) \<Rightarrow> error run" where
  "sqlxTransaction_DoTx s opt fn =
     (case opt of
        None \<Rightarrow> \<lparr>run_result = Panics NilDereference, run_spans = [], run_events = []\<rparr>
      | Some opt' \<Rightarrow>
          let span = tracer_Start ''do transaction'' (tx_span_opts opt') in
          (case BeginTxx (stx_db s) opt' of
             Inl err \<Rightarrow>
               \<lparr>run_result = Returns (Some (errTracer ''.(*sqlxTransaction).DoTx'' 39 (Some err))),
                run_spans = [span_End (recordError span (Some err))],
                run_events = [EvBeginTxx]\<rparr>
           | Inr tx \<Rightarrow>
               (case fn (NewRdbms0 (Tx_executor tx)) of
                  Panics p \<Rightarrow>
                    \<lparr>run_result = Panics p,
                     run_spans = [span_End (recordError span (Tx_Rollback tx))],
                     run_events = [EvBeginTxx, EvWork, EvRollback]\<rparr>
                | Returns (Some err) \<Rightarrow>
                    (case Tx_Rollback tx of
                       Some errRollback \<Rightarrow>
                         \<lparr>run_result = Returns (Some errRollback),
                          run_spans = [span_End (recordError span (Some errRollback))],
                          run_events = [EvBeginTxx, EvWork, EvRollback]\<rparr>
                     | None \<Rightarrow>
                         \<lparr>run_result = Returns (Some err),
                          run_spans = [span_End span],
                          run_events = [EvBeginTxx, EvWork, EvRollback]\<rparr>)
                | Returns None \<Rightarrow>
                    (case Tx_Commit tx of
                       Some errCommit \<Rightarrow>
                         \<lparr>run_result = Returns (Some errCommit),
                          run_spans = [span_End (recordError span (Some errCommit))],
                          run_events = [EvBeginTxx, EvWork, EvCommit]\<rparr>
                     | None \<Rightarrow>
                         \<lparr>run_result = Returns None,
                          run_spans = [span_End span],
                          run_events = [EvBeginTxx, EvWork, EvCommit]\<rparr>))))"

section \<open>The second facade (rdbms_impl.go)\<close>

record rdbmsConfig =
  host :: string
  port :: int
  user :: string

record 'd rdbms =
  db :: "'d DB"
  queryExecutor :: "'d executor"
  attrs :: "(string \<times> attr_value) list"
  spanNameFunc :: "(string \<Rightarrow> string outcome) option"
  includeParams :: bool
  rdbmsConfig :: "rdbmsConfig option"

text \<open>
  \<open>optionFunc\<close> is an unexported function type; the four constructors below are the
  only option values a caller can build.
\<close>

datatype optionFunc =
    WithAttributes "(string \<times> attr_value) list"
  | WithSpanNameFunc "(string \<Rightarrow> string outcome) option"
  | WithOutIncludeQueryParameters
  | WithConfig int string string

fun apply_option :: "optionFunc \<Rightarrow> 'd rdbms \<Rightarrow> 'd rdbms" where
  "apply_option (WithAttributes as) cfg = cfg\<lparr>attrs := attrs cfg @ as\<rparr>"
| "apply_option (WithSpanNameFunc fn) cfg = cfg\<lparr>spanNameFunc := fn\<rparr>"
| "apply_option WithOutIncludeQueryParameters cfg = cfg\<lparr>includeParams := False\<rparr>"
| "apply_option (WithConfig p h u) cfg = cfg\<lparr>rdbmsConfig := Some \<lparr>host = h, port = p, user = u\<rparr>\<rparr>"

text \<open>Whether an option replaces the span-name function.\<close>

fun is_WithSpanNameFunc :: "optionFunc \<Rightarrow> bool" where
  "is_WithSpanNameFunc (WithSpanNameFunc fn) = True"
| "is_WithSpanNameFunc other = False"

text \<open>\<open>s[0:15]\<close> panics when the string has fewer than 15 bytes.\<close>

definition defaultSpanNameFN :: "string \<Rightarrow> string outcome" where
  "defaultSpanNameFN s =
     (if length s < 15 then Panics (SliceBounds 15 (length s))
      else Returns (take 15 s @ ''...''))"

definition NewRdbms :: "'d DB \<Rightarrow> optionFunc list \<Rightarrow> 'd rdbms" where
  "NewRdbms db' opt =
     foldl (\<lambda>r o'. apply_option o' r)
       \<lparr>db = db', queryExecutor = DB_executor db', attrs = [],
        spanNameFunc = Some defaultSpanNameFN, includeParams = True, rdbmsConfig = None\<rparr>
       opt"

definition injectTx :: "'d rdbms \<Rightarrow> 'd Tx \<Rightarrow> 'd rdbms" where
  "injectTx s tx = s\<lparr>queryExecutor := Tx_executor tx\<rparr>"

text \<open>
  \<open>func (s *rdbms) DoTx(ctx, opt *sql.TxOptions, fn func(tx Rdbms) (err error)) (err error)\<close>
\<close>

definition DoTx ::
  "'d rdbms \<Rightarrow> TxOptions option \<Rightarrow> ('d rdbms \<Rightarrow> error outcome) \<Rightarrow> error run" where
  "DoTx s opt fn =
     (case opt of
        None \<Rightarrow> \<lparr>run_result = Panics NilDereference, run_spans = [], run_events = []\<rparr>
      | Some opt' \<Rightarrow>
          let span = tracer_Start ''do transaction'' (tx_span_opts opt') in
          (case BeginTxx (db s) opt' of
             Inl err \<Rightarrow>
               \<lparr>run_result = Returns (Some (errTracer ''.(*rdbms).DoTx'' 268 (Some err))),
                run_spans = [span_End (recordError span (Some err))],
                run_events = [EvBeginTxx]\<rparr>
           | Inr tx \<Rightarrow>
               (case fn (injectTx s tx) of
                  Panics p \<Rightarrow>
                    let span1 = SetAttributes span ''db.tx.operation'' ''rollback'';
                        span2 = (case Tx_Rollback tx of
                                   Some errRollback \<Rightarrow>
                                     SetAttributes (recordError span1 (Some errRollback))
                                       ''db.tx.status'' ''rollback failed''
                                 | None \<Rightarrow>
                                     SetAttributes span1 ''db.tx.status'' ''rollback successfully'');
                        span3 = recordError span2 (Some (ErrNew (''panic occurred: '' @ panic_text p)))
                    in \<lparr>run_result = Panics p,
                        run_spans = [span_End span3],
                        run_events = [EvBeginTxx, EvWork, EvRollback]\<rparr>
                | Returns (Some err) \<Rightarrow>
                    let span1 = recordError span (Some err);
                        span2 = SetAttributes span1 ''db.tx.operation'' ''rollback''
                    in (case Tx_Rollback tx of
                          Some errRollback \<Rightarrow>
                            \<lparr>run_result = Returns (errors_Join [Some err, Some errRollback]),
                             run_spans = [span_End (SetAttributes (recordError span2 (Some errRollback))
                                            ''db.tx.status'' ''rollback failed'')],
                             run_events = [EvBeginTxx, EvWork, EvRollback]\<rparr>
                        | None \<Rightarrow>
                            \<lparr>run_result = Returns (Some err),
                             run_spans = [span_End (SetAttributes span2
                                            ''db.tx.status'' ''rollback successfully'')],
                             run_events = [EvBeginTxx, EvWork, EvRollback]\<rparr>)
                | Returns None \<Rightarrow>
                    let span1 = SetAttributes span ''db.tx.operation'' ''commit''
                    in (case Tx_Commit tx of
                          Some errCommit \<Rightarrow>
                            \<lparr>run_result = Returns (Some errCommit),
                             run_spans = [span_End (SetAttributes (recordError span1 (Some errCommit))
                                            ''db.tx.status'' ''commit failed'')],
                             run_events = [EvBeginTxx, EvWork, EvCommit]\<rparr>
                        | None \<Rightarrow>
                            \<lparr>run_result = Returns None,
                             run_spans = [span_End (SetAttributes span1
                                            ''db.tx.status'' ''commit successfully'')],
                             run_events = [EvBeginTxx, EvWork, EvCommit]\<rparr>))))"

section \<open>Concrete handles\<close>

text \<open>
  A driver whose queries all succeed, a transaction on it whose rollback and commit
  answer as given, and a database that opens that transaction.
\<close>

definition ex_executor :: "int64 executor" where
  "ex_executor =
     \<lparr>QueryxContext = (\<lambda>q a. Inr \<lparr>Rows_Close = None\<rparr>),
      ExecContext = (\<lambda>q a. Inr (0, 1)),
      QueryRowxContext = (\<lambda>q a. \<lparr>Row_Scan = Inr 25, Row_StructScan = Inr 25\<rparr>)\<rparr>"

definition ex_Tx :: "error \<Rightarrow> error \<Rightarrow> int64 Tx" where
  "ex_Tx rb cm = \<lparr>Tx_executor = ex_executor, Tx_Rollback = rb, Tx_Commit = cm\<rparr>"

definition ex_DB :: "error \<Rightarrow> error \<Rightarrow> int64 DB" where
  "ex_DB rb cm = \<lparr>DB_executor = ex_executor, BeginTxx = (\<lambda>opt. Inr (ex_Tx rb cm))\<rparr>"

definition ex_opt :: TxOptions where
  "ex_opt = \<lparr>Isolation = 0, ReadOnly = False\<rparr>"

section \<open>Statements and span attributes (util.go, squirrel)\<close>

text \<open>
  \<open>strings.Fields\<close> and \<open>strings.ToUpper\<close>, on ASCII text: fields are separated by runs
  of ASCII white space, and only the letters a-z change case.
\<close>

definition isSpace :: "char \<Rightarrow> bool" where
  "isSpace c =
     (c = CHR '' '' \<or> c = CHR 0x09 \<or> c = CHR 0x0A \<or> c = CHR 0x0B \<or> c = CHR 0x0C \<or> c = CHR 0x0D)"

function strings_Fields :: "string \<Rightarrow> string list" where
  "strings_Fields s =
     (if dropWhile isSpace s = [] then []
      else takeWhile (\<lambda>c. \<not> isSpace c) (dropWhile isSpace s)
           # strings_Fields (dropWhile (\<lambda>c. \<not> isSpace c) (dropWhile isSpace s)))"
  by pat_completeness auto
termination
proof (relation "measure length")
  show "wf (measure length)" by simp
next
  fix s :: string
  assume ne: "dropWhile isSpace s \<noteq> []"
  then obtain x xs where sp: "dropWhile isSpace s = x # xs"
    by (cases "dropWhile isSpace s") auto
  have "\<not> isSpace (hd (dropWhile isSpace s))" using ne by (rule hd_dropWhile)
  then have "\<not> isSpace x" using sp by simp
  then have "dropWhile (\<lambda>c. \<not> isSpace c) (x # xs) = dropWhile (\<lambda>c. \<not> isSpace c) xs" by simp
  moreover have "length (dropWhile (\<lambda>c. \<not> isSpace c) xs) \<le> length xs"
    by (rule length_dropWhile_le)
  moreover have "length (x # xs) \<le> length s"
    using length_dropWhile_le [of isSpace s] sp by simp
  ultimately show "(dropWhile (\<lambda>c. \<not> isSpace c) (dropWhile isSpace s), s) \<in> measure length"
    using sp by simp
qed

definition strings_ToUpper :: "string \<Rightarrow> string" where
  "strings_ToUpper s =
     map (\<lambda>c. if 97 \<le> (of_char c :: nat) \<and> (of_char c :: nat) \<le> 122
               then char_of ((of_char c :: nat) - 32) else c) s"

text \<open>\<open>func sqlOperationName(stmt string) string\<close> of util.go.\<close>

definition sqlOperationName :: "string \<Rightarrow> string" where
  "sqlOperationName stmt =
     (case strings_Fields stmt of [] \<Rightarrow> sqlOperationUnknown | p # ps \<Rightarrow> strings_ToUpper p)"

text \<open>
  The query builder is outside the repository. A \<open>squirrel.Sqlizer\<close> is what its
  \<open>ToSql()\<close> returns: an error, or the statement text and its arguments. A
  \<open>squirrel.SelectBuilder\<close> keeps the limit and the offset set on it, and renders with
  them.
\<close>

type_synonym Sqlizer = "goerr + string \<times> arg list"

record SelectBuilder =
  sb_render :: "uint64 option \<Rightarrow> uint64 option \<Rightarrow> goerr + string \<times> arg list"
  sb_limit :: "uint64 option"
  sb_offset :: "uint64 option"

definition sb_Limit :: "SelectBuilder \<Rightarrow> uint64 \<Rightarrow> SelectBuilder" where
  "sb_Limit b n = b\<lparr>sb_limit := Some n\<rparr>"

definition sb_Offset :: "SelectBuilder \<Rightarrow> uint64 \<Rightarrow> SelectBuilder" where
  "sb_Offset b n = b\<lparr>sb_offset := Some n\<rparr>"

definition sb_ToSql :: "SelectBuilder \<Rightarrow> Sqlizer" where
  "sb_ToSql b = sb_render b (sb_limit b) (sb_offset b)"

text \<open>The conversion \<open>uint64(x)\<close> of an \<open>int64\<close>: the value modulo \<open>2^64\<close>.\<close>

definition uint64 :: "int64 \<Rightarrow> uint64" where
  "uint64 x = word_of_int (sint x)"

type_synonym QueryRowScanType = "8 word"

definition QueryRowScanTypeDefault :: QueryRowScanType where
  "QueryRowScanTypeDefault = 1"

definition QueryRowScanTypeStruct :: QueryRowScanType where
  "QueryRowScanTypeStruct = 2"

text \<open>
  The deferred function of \<open>QuerySq\<close> (the same text in both facades): it closes the
  rows and notes the outcome on the span.
\<close>

definition deferred_close :: "span \<Rightarrow> Rows \<Rightarrow> span" where
  "deferred_close spanQueryx res =
     (case Rows_Close res of
        Some errClose \<Rightarrow>
          SetAttributes (recordError spanQueryx (Some errClose)) ''db.system.close.rows'' ''failed''
      | None \<Rightarrow> SetAttributes spanQueryx ''db.system.close.rows'' ''successfully'')"

text \<open>
  Lines 229-231 of \<open>QuerySqPagination\<close> (the same text in both facades): the limit and
  the offset put on the row query.
\<close>

definition paginate :: "SelectBuilder \<Rightarrow> PaginationInput \<Rightarrow> SelectBuilder" where
  "paginate query paginationInput =
     (let offset = Offset paginationInput;
          query1 = sb_Limit query (uint64 (PageSize paginationInput))
      in sb_Offset query1 (uint64 offset))"

definition zero_PaginationOutput :: PaginationOutput where
  "zero_PaginationOutput = \<lparr>out_Page = 0, out_PageSize = 0, out_PageCount = 0, out_TotalData = 0\<rparr>"

section \<open>The first facade's operations (src/unnamed/part_004)\<close>

text \<open>The span every operation of the first facade starts: named by the statement.\<close>

definition query_span0 :: "string \<Rightarrow> arg list \<Rightarrow> span" where
  "query_span0 rawQuery args =
     tracer_Start rawQuery
       [(DBQueryTextKey, AString rawQuery), makeParamAttr args,
        (DBOperationNameKey, AString (sqlOperationName rawQuery))]"

definition QuerySq0 :: "'d rdbms0 \<Rightarrow> Sqlizer \<Rightarrow> (Rows \<Rightarrow> error outcome) \<Rightarrow> error run" where
  "QuerySq0 s query callback =
     (case query of
        Inl err \<Rightarrow>
          \<lparr>run_result = Returns (Some (errTracer ''.(*rdbms).QuerySq'' 29 (Some err))),
           run_spans = [], run_events = []\<rparr>
      | Inr (rawQuery, args) \<Rightarrow>
          let spanQueryx = query_span0 rawQuery args in
          (case QueryxContext (db0 s) rawQuery args of
             Inl err \<Rightarrow>
               \<lparr>run_result = Returns (Some err),
                run_spans = [span_End (recordError spanQueryx (Some err))],
                run_events = [EvQueryx rawQuery args]\<rparr>
           | Inr res \<Rightarrow>
               \<lparr>run_result = callback res,
                run_spans = [span_End (deferred_close spanQueryx res)],
                run_events = [EvQueryx rawQuery args, EvCallback, EvRowsClose]\<rparr>))"

definition ExecSq0 :: "'d rdbms0 \<Rightarrow> Sqlizer \<Rightarrow> (sql_Result option \<times> error) run" where
  "ExecSq0 s query =
     (case query of
        Inl err \<Rightarrow>
          \<lparr>run_result = Returns (None, Some (errTracer ''.(*rdbms).ExecSq'' 60 (Some err))),
           run_spans = [], run_events = []\<rparr>
      | Inr (rawQuery, args) \<Rightarrow>
          let spanExec = query_span0 rawQuery args in
          (case ExecContext (db0 s) rawQuery args of
             Inl err \<Rightarrow>
               \<lparr>run_result = Returns (None, Some err),
                run_spans = [span_End (recordError spanExec (Some err))],
                run_events = [EvExec rawQuery args]\<rparr>
           | Inr res \<Rightarrow>
               \<lparr>run_result = Returns (Some res, None),
                run_spans = [span_End spanExec],
                run_events = [EvExec rawQuery args]\<rparr>))"

text \<open>
  \<open>QueryRowSq\<close> returns the error; the second component is the value the scan stored
  through \<open>dest\<close> (\<open>None\<close>: nothing stored).
\<close>

definition QueryRowSq0 ::
  "'d rdbms0 \<Rightarrow> Sqlizer \<Rightarrow> QueryRowScanType \<Rightarrow> (error \<times> 'd option) run" where
  "QueryRowSq0 s query scanType =
     (case query of
        Inl err \<Rightarrow>
          \<lparr>run_result = Returns (Some (errTracer ''.(*rdbms).QueryRowSq'' 83 (Some err)), None),
           run_spans = [], run_events = []\<rparr>
      | Inr (rawQuery, args) \<Rightarrow>
          let spanQueryx = query_span0 rawQuery args;
              res = QueryRowxContext (db0 s) rawQuery args;
              scanned = (if scanType = QueryRowScanTypeStruct then Row_StructScan res
                         else Row_Scan res);
              evs = [EvQueryRowx rawQuery args,
                     if scanType = QueryRowScanTypeStruct then EvStructScan else EvScan]
          in (case scanned of
                Inl err \<Rightarrow>
                  if errors_Is err sql_ErrNoRows
                  then \<lparr>run_result = Returns (Some (errTracer ''.(*rdbms).QueryRowSq'' 109
                                         (errors_Join [Some err, Some ErrRecordNoRows])), None),
                        run_spans = [span_End spanQueryx], run_events = evs\<rparr>
                  else \<lparr>run_result = Returns (Some (errTracer ''.(*rdbms).QueryRowSq'' 109 (Some err)), None),
                        run_spans = [span_End (recordError spanQueryx (Some err))],
                        run_events = evs\<rparr>
              | Inr v \<Rightarrow>
                  \<lparr>run_result = Returns (None, Some v),
                   run_spans = [span_End spanQueryx], run_events = evs\<rparr>))"

definition QuerySqPagination0 ::
  "int64 rdbms0 \<Rightarrow> SelectBuilder \<Rightarrow> SelectBuilder \<Rightarrow> PaginationInput
     \<Rightarrow> (Rows \<Rightarrow> error outcome) \<Rightarrow> (PaginationOutput \<times> error) run" where
  "QuerySqPagination0 s countQuery query paginationInput callback =
     (let query' = paginate query paginationInput;
          r1 = QueryRowSq0 s (sb_ToSql countQuery) QueryRowScanTypeDefault
      in (case run_result r1 of
            Panics p \<Rightarrow>
              \<lparr>run_result = Panics p, run_spans = run_spans r1, run_events = run_events r1\<rparr>
          | Returns (Some err, d) \<Rightarrow>
              \<lparr>run_result = Returns (zero_PaginationOutput,
                              Some (errTracer ''.(*rdbms).QuerySqPagination'' 124 (Some err))),
               run_spans = run_spans r1, run_events = run_events r1\<rparr>
          | Returns (None, d) \<Rightarrow>
              let totalData = (case d of Some v \<Rightarrow> v | None \<Rightarrow> 0);
                  r2 = QuerySq0 s (sb_ToSql query') callback
              in (case run_result r2 of
                    Panics p \<Rightarrow>
                      \<lparr>run_result = Panics p, run_spans = run_spans r1 @ run_spans r2,
                       run_events = run_events r1 @ run_events r2\<rparr>
                  | Returns (Some err) \<Rightarrow>
                      \<lparr>run_result = Returns (zero_PaginationOutput,
                                      Some (errTracer ''.(*rdbms).QuerySqPagination'' 129 (Some err))),
                       run_spans = run_spans r1 @ run_spans r2,
                       run_events = run_events r1 @ run_events r2\<rparr>
                  | Returns None \<Rightarrow>
                      \<lparr>run_result = Returns (CreatePaginationOutput paginationInput totalData, None),
                       run_spans = run_spans r1 @ run_spans r2,
                       run_events = run_events r1 @ run_events r2\<rparr>)))"

section \<open>The second facade's operations (rdbms_impl.go)\<close>

text \<open>
  Calling the span-name function: a nil function value panics. The method
  \<open>sqlOperationName\<close> asks the same function when it is set.
\<close>

definition call_spanNameFunc :: "'d rdbms \<Rightarrow> string \<Rightarrow> string outcome" where
  "call_spanNameFunc s stmt =
     (case spanNameFunc s of None \<Rightarrow> Panics NilDereference | Some fn \<Rightarrow> fn stmt)"

definition rdbms_sqlOperationName :: "'d rdbms \<Rightarrow> string \<Rightarrow> string outcome" where
  "rdbms_sqlOperationName s stmt =
     (case spanNameFunc s of
        Some fn \<Rightarrow> fn stmt
      | None \<Rightarrow>
          (case strings_Fields stmt of
             [] \<Rightarrow> Returns sqlOperationUnknown
           | p # ps \<Rightarrow> Returns (strings_ToUpper p)))"

text \<open>
  \<open>func (s *rdbms) commonAttribute(rawQuery string, args ...interface{})\<close>. The three
  operations call it as \<open>s.commonAttribute(rawQuery, args)\<close>, so its variadic parameter
  holds one value, the whole argument slice.
\<close>

definition commonAttribute ::
  "'d rdbms \<Rightarrow> string \<Rightarrow> arg list \<Rightarrow> (string \<times> attr_value) list outcome" where
  "commonAttribute s rawQuery args =
     (case rdbms_sqlOperationName s rawQuery of
        Panics p \<Rightarrow> Panics p
      | Returns name \<Rightarrow>
          Returns
            ([(''db.operation.name'', AString name), (''db.query.text'', AString rawQuery)]
             @ (case rdbmsConfig s of
                  Some c \<Rightarrow> [(''server.address'', AString (host c)), (''server.port'', AInt (port c))]
                | None \<Rightarrow> [])
             @ (if includeParams s then [makeParamAttr args] else [])
             @ attrs s))"

fun join_with :: "string \<Rightarrow> string list \<Rightarrow> string" where
  "join_with sep [] = []"
| "join_with sep [x] = x"
| "join_with sep (x # y # ys) = x @ sep @ join_with sep (y # ys)"

definition slice_arg :: "arg list \<Rightarrow> arg" where
  "slice_arg args = (''[]interface {}'', ''['' @ join_with '' '' (map snd args) @ '']'')"

text \<open>
  \<open>s.tracer.Start(ctx, s.spanNameFunc(rawQuery), s.commonAttribute(rawQuery, args)...)\<close>:
  the arguments are evaluated left to right before the span starts.
\<close>

definition query_span :: "'d rdbms \<Rightarrow> string \<Rightarrow> arg list \<Rightarrow> span outcome" where
  "query_span s rawQuery args =
     (case call_spanNameFunc s rawQuery of
        Panics p \<Rightarrow> Panics p
      | Returns name \<Rightarrow>
          (case commonAttribute s rawQuery [slice_arg args] of
             Panics p \<Rightarrow> Panics p
           | Returns as \<Rightarrow> Returns (tracer_Start name as)))"

definition QuerySq :: "'d rdbms \<Rightarrow> Sqlizer \<Rightarrow> (Rows \<Rightarrow> error outcome) \<Rightarrow> error run" where
  "QuerySq s query callback =
     (case query of
        Inl err \<Rightarrow>
          \<lparr>run_result = Returns (Some (errTracer ''.(*rdbms).QuerySq'' 158 (Some err))),
           run_spans = [], run_events = []\<rparr>
      | Inr (rawQuery, args) \<Rightarrow>
          (case query_span s rawQuery args of
             Panics p \<Rightarrow> \<lparr>run_result = Panics p, run_spans = [], run_events = []\<rparr>
           | Returns spanQueryx \<Rightarrow>
               (case QueryxContext (queryExecutor s) rawQuery args of
                  Inl err \<Rightarrow>
                    \<lparr>run_result = Returns (Some err),
                     run_spans = [span_End (recordError spanQueryx (Some err))],
                     run_events = [EvQueryx rawQuery args]\<rparr>
                | Inr res \<Rightarrow>
                    \<lparr>run_result = callback res,
                     run_spans = [span_End (deferred_close spanQueryx res)],
                     run_events = [EvQueryx rawQuery args, EvCallback, EvRowsClose]\<rparr>)))"

definition ExecSq :: "'d rdbms \<Rightarrow> Sqlizer \<Rightarrow> (sql_Result option \<times> error) run" where
  "ExecSq s query =
     (case query of
        Inl err \<Rightarrow>
          \<lparr>run_result = Returns (None, Some (errTracer ''.(*rdbms).ExecSq'' 184 (Some err))),
           run_spans = [], run_events = []\<rparr>
      | Inr (rawQuery, args) \<Rightarrow>
          (case query_span s rawQuery args of
             Panics p \<Rightarrow> \<lparr>run_result = Panics p, run_spans = [], run_events = []\<rparr>
           | Returns spanExec \<Rightarrow>
               (case ExecContext (queryExecutor s) rawQuery args of
                  Inl err \<Rightarrow>
                    \<lparr>run_result = Returns (None, Some err),
                     run_spans = [span_End (recordError spanExec (Some err))],
                     run_events = [EvExec rawQuery args]\<rparr>
                | Inr res \<Rightarrow>
                    \<lparr>run_result = Returns (Some res, None),
                     run_spans = [span_End spanExec],
                     run_events = [EvExec rawQuery args]\<rparr>)))"

definition QueryRowSq ::
  "'d rdbms \<Rightarrow> Sqlizer \<Rightarrow> QueryRowScanType \<Rightarrow> (error \<times> 'd option) run" where
  "QueryRowSq s query scanType =
     (case query of
        Inl err \<Rightarrow>
          \<lparr>run_result = Returns (Some (errTracer ''.(*rdbms).QueryRowSq'' 202 (Some err)), None),
           run_spans = [], run_events = []\<rparr>
      | Inr (rawQuery, args) \<Rightarrow>
          (case query_span s rawQuery args of
             Panics p \<Rightarrow> \<lparr>run_result = Panics p, run_spans = [], run_events = []\<rparr>
           | Returns spanQueryx \<Rightarrow>
               let res = QueryRowxContext (queryExecutor s) rawQuery args;
                   scanned = (if scanType = QueryRowScanTypeStruct then Row_StructScan res
                              else Row_Scan res);
                   evs = [EvQueryRowx rawQuery args,
                          if scanType = QueryRowScanTypeStruct then EvStructScan else EvScan]
               in (case scanned of
                     Inl err \<Rightarrow>
                       \<lparr>run_result = Returns (Some (errTracer ''.(*rdbms).QueryRowSq'' 221 (Some err)), None),
                        run_spans = [span_End (if \<not> errors_Is err sql_ErrNoRows
                                               then recordError spanQueryx (Some err)
                                               else spanQueryx)],
                        run_events = evs\<rparr>
                   | Inr v \<Rightarrow>
                       \<lparr>run_result = Returns (None, Some v),
                        run_spans = [span_End spanQueryx], run_events = evs\<rparr>)))"

definition QuerySqPagination ::
  "int64 rdbms \<Rightarrow> SelectBuilder \<Rightarrow> SelectBuilder \<Rightarrow> PaginationInput
     \<Rightarrow> (Rows \<Rightarrow> error outcome) \<Rightarrow> (PaginationOutput \<times> error) run" where
  "QuerySqPagination s countQuery query paginationInput callback =
     (let query' = paginate query paginationInput;
          r1 = QueryRowSq s (sb_ToSql countQuery) QueryRowScanTypeDefault
      in (case run_result r1 of
            Panics p \<Rightarrow>
              \<lparr>run_result = Panics p, run_spans = run_spans r1, run_events = run_events r1\<rparr>
          | Returns (Some err, d) \<Rightarrow>
              \<lparr>run_result = Returns (zero_PaginationOutput,
                              Some (errTracer ''.(*rdbms).QuerySqPagination'' 236 (Some err))),
               run_spans = run_spans r1, run_events = run_events r1\<rparr>
          | Returns (None, d) \<Rightarrow>
              let totalData = (case d of Some v \<Rightarrow> v | None \<Rightarrow> 0);
                  r2 = QuerySq s (sb_ToSql query') callback
              in (case run_result r2 of
                    Panics p \<Rightarrow>
                      \<lparr>run_result = Panics p, run_spans = run_spans r1 @ run_spans r2,
                       run_events = run_events r1 @ run_events r2\<rparr>
                  | Returns (Some err) \<Rightarrow>
                      \<lparr>run_result = Returns (zero_PaginationOutput,
                                      Some (errTracer ''.(*rdbms).QuerySqPagination'' 241 (Some err))),
                       run_spans = run_spans r1 @ run_spans r2,
                       run_events = run_events r1 @ run_events r2\<rparr>
                  | Returns None \<Rightarrow>
                      \<lparr>run_result = Returns (CreatePaginationOutput paginationInput totalData, None),
                       run_spans = run_spans r1 @ run_spans r2,
                       run_events = run_events r1 @ run_events r2\<rparr>)))"

section \<open>More concrete handles\<close>

text \<open>A driver that finds no row, and a select statement rendered the way squirrel does.\<close>

definition ex_executor_norows :: "int64 executor" where
  "ex_executor_norows =
     \<lparr>QueryxContext = (\<lambda>q a. Inr \<lparr>Rows_Close = None\<rparr>),
      ExecContext = (\<lambda>q a. Inr (0, 0)),
      QueryRowxContext = (\<lambda>q a. \<lparr>Row_Scan = Inl sql_ErrNoRows, Row_StructScan = Inl sql_ErrNoRows\<rparr>)\<rparr>"

definition ex_DB_norows :: "int64 DB" where
  "ex_DB_norows = \<lparr>DB_executor = ex_executor_norows, BeginTxx = (\<lambda>opt. Inr (ex_Tx None None))\<rparr>"

definition ex_executor_close :: "error \<Rightarrow> int64 executor" where
  "ex_executor_close c =
     \<lparr>QueryxContext = (\<lambda>q a. Inr \<lparr>Rows_Close = c\<rparr>),
      ExecContext = (\<lambda>q a. Inr (0, 1)),
      QueryRowxContext = (\<lambda>q a. \<lparr>Row_Scan = Inr 25, Row_StructScan = Inr 25\<rparr>)\<rparr>"

definition ex_DB_close :: "error \<Rightarrow> int64 DB" where
  "ex_DB_close c = \<lparr>DB_executor = ex_executor_close c, BeginTxx = (\<lambda>opt. Inr (ex_Tx None None))\<rparr>"

definition ex_select :: "string \<Rightarrow> SelectBuilder" where
  "ex_select base =
     \<lparr>sb_render = (\<lambda>l o'. Inr (base
          @ (case l of None \<Rightarrow> [] | Some n \<Rightarrow> '' LIMIT '' @ show_nat (unat n))
          @ (case o' of None \<Rightarrow> [] | Some n \<Rightarrow> '' OFFSET '' @ show_nat (unat n)), [])),
      sb_limit = None, sb_offset = None\<rparr>"

section \<open>Facts about 64-bit arithmetic\<close>

lemma sint_int64_of_int:
  "- (2 ^ 63) \<le> k \<Longrightarrow> k < 2 ^ 63 \<Longrightarrow> sint (word_of_int k :: int64) = k"
  by (simp add: sint_sbintrunc' signed_take_bit_int_eq_self_iff)

lemma sint_int64_bounds: "- (2 ^ 63) \<le> sint (w :: int64) \<and> sint w < 2 ^ 63"
  using sint_range_size [of w] by (simp add: word_size)

lemma sdiv_nonneg_int: "0 \<le> (t::int) \<Longrightarrow> 0 < p \<Longrightarrow> t sdiv p = t div p"
  by (simp add: signed_divide_int_def sgn_if)

lemma smod_nonneg_int: "0 \<le> (t::int) \<Longrightarrow> 0 < p \<Longrightarrow> t smod p = t mod p"
  by (simp add: signed_modulo_int_def sgn_if)

lemma ceiling_div_int:
  "0 < (p::int) \<Longrightarrow>
     \<lceil>real_of_int t / real_of_int p\<rceil> = (if t mod p = 0 then t div p else t div p + 1)"
  by (simp add: ceiling_divide_eq_div zdiv_zminus1_eq_if)

lemma sint_int64_div:
  assumes "0 \<le> sint t" "0 < sint p"
  shows "sint (int64_div t p) = sint t div sint p"
proof -
  have "0 \<le> sint t div sint p" using assms by (simp add: pos_imp_zdiv_nonneg_iff)
  moreover have "sint t div sint p \<le> sint t div 1" using assms by (intro zdiv_mono2) simp_all
  moreover have "sint t < 2 ^ 63" using sint_int64_bounds [of t] by simp
  ultimately show ?thesis
    using assms by (simp add: int64_div_def sdiv_nonneg_int sint_int64_of_int)
qed

lemma int64_mod_eq_0_iff:
  assumes "0 \<le> sint t" "0 < sint p"
  shows "int64_mod t p = 0 \<longleftrightarrow> sint t mod sint p = 0"
proof -
  have "0 \<le> sint t mod sint p" "sint t mod sint p < sint p" using assms by simp_all
  moreover have "sint p < 2 ^ 63" using sint_int64_bounds [of p] by simp
  ultimately have "- (2 ^ 63) \<le> sint t mod sint p" "sint t mod sint p < 2 ^ 63" by linarith+
  then have "sint (word_of_int (sint t mod sint p) :: int64) = sint t mod sint p"
    by (rule sint_int64_of_int)
  then have s: "sint (int64_mod t p) = sint t mod sint p"
    using assms by (simp add: int64_mod_def smod_nonneg_int)
  show ?thesis
  proof
    assume "int64_mod t p = 0"
    then have "sint (int64_mod t p) = 0" by simp
    with s show "sint t mod sint p = 0" by simp
  next
    assume "sint t mod sint p = 0"
    then show "int64_mod t p = 0" using assms by (simp add: int64_mod_def smod_nonneg_int)
  qed
qed

lemma sint_succ_int64: "sint (w :: int64) + 1 < 2 ^ 63 \<Longrightarrow> sint (w + 1) = sint w + 1"
proof -
  assume a: "sint w + 1 < 2 ^ 63"
  have "sint (w + 1) = signed_take_bit 63 (sint w + sint (1 :: int64))"
    by (simp add: sint_word_ariths)
  also have "\<dots> = sint w + 1"
    using a sint_int64_bounds [of w] by (simp add: signed_take_bit_int_eq_self_iff)
  finally show ?thesis .
qed

lemma getPageCount_pos:
  assumes p: "0 < sint pageSize" and t: "0 \<le> sint totalData"
  shows "sint (getPageCount pageSize totalData) =
     (if sint totalData \<le> sint pageSize then 1
      else \<lceil>real_of_int (sint totalData) / real_of_int (sint pageSize)\<rceil>)"
proof (cases "sint totalData \<le> sint pageSize")
  case True
  then show ?thesis using p by (simp add: getPageCount_def word_sless_alt word_sle_eq)
next
  case False
  then have gt: "sint pageSize < sint totalData" by simp
  show ?thesis
  proof (cases "sint totalData mod sint pageSize = 0")
    case True
    then show ?thesis
      using p t gt ceiling_div_int [of "sint pageSize" "sint totalData"]
      by (simp add: getPageCount_def word_sless_alt word_sle_eq int64_mod_eq_0_iff
          sint_int64_div)
  next
    case nz: False
    have "sint pageSize \<noteq> 1" using nz by auto
    then have p2: "2 \<le> sint pageSize" using p by simp
    have "sint totalData div sint pageSize \<le> sint totalData div 2"
      using p2 t by (simp add: zdiv_mono2)
    moreover have "sint totalData div 2 < sint totalData" using gt p by simp
    moreover have "sint totalData < 2 ^ 63" using sint_int64_bounds [of totalData] by simp
    ultimately have "sint (int64_div totalData pageSize) + 1 < 2 ^ 63"
      using p t by (simp add: sint_int64_div)
    then have "sint (int64_div totalData pageSize + 1) = sint totalData div sint pageSize + 1"
      using p t by (simp add: sint_succ_int64 sint_int64_div)
    then show ?thesis
      using p t gt nz ceiling_div_int [of "sint pageSize" "sint totalData"]
      by (simp add: getPageCount_def word_sless_alt word_sle_eq int64_mod_eq_0_iff)
  qed
qed

section \<open>Pagination\<close>

text \<open>
  Claim C6. For every page size \<open>> 0\<close> and total row count \<open>\<ge> 0\<close> the page count is
  1 when the total does not exceed the page size, and the ceiling of total / page size
  otherwise; for every page size \<open>\<le> 0\<close> the page count is 1. The numbers are the signed
  readings of the 64-bit values; the ceiling is taken over the reals.
\<close>

theorem getPageCount_spec:
  "(0 < sint pageSize \<and> 0 \<le> sint totalData \<longrightarrow>
      sint (getPageCount pageSize totalData) =
        (if sint totalData \<le> sint pageSize then 1
         else \<lceil>real_of_int (sint totalData) / real_of_int (sint pageSize)\<rceil>))
   \<and> (sint pageSize \<le> 0 \<longrightarrow> getPageCount pageSize totalData = 1)"
  using getPageCount_pos [of pageSize totalData]
  by (simp add: getPageCount_def word_sless_alt)

theorem getPageCount_spec_witness:
  "0 < sint (10 :: int64) \<and> 0 \<le> sint (25 :: int64) \<and> sint (getPageCount 10 25) = 3
   \<and> sint (0 :: int64) \<le> 0 \<and> getPageCount 0 25 = 1"
  using getPageCount_spec [of 10 25] getPageCount_spec [of 0 25]
  by simp

text \<open>
  Claim C7 as stated, over the integers, fails where the product leaves the \<open>int64\<close>
  range: for page 3 and page size \<open>2^62\<close> the product is \<open>2^63\<close>, and the code
  returns \<open>-2^63\<close>.
\<close>

theorem Offset_product_counterexample:
  "1 \<le> sint (Page \<lparr>Page = 3, PageSize = 2 ^ 62\<rparr>)
   \<and> sint (Offset \<lparr>Page = 3, PageSize = 2 ^ 62\<rparr>)
       \<noteq> (sint (Page \<lparr>Page = 3, PageSize = 2 ^ 62\<rparr>) - 1)
           * sint (PageSize \<lparr>Page = 3, PageSize = 2 ^ 62\<rparr>)"
  by (simp add: Offset_def)

text \<open>
  Claim C7, amended. The offset is 0 when page \<open>\<le> 0\<close>. When page \<open>\<ge> 1\<close> it is the
  product (page - 1) * pageSize wrapped into the signed 64-bit range, and it is the
  product itself whenever the product fits into \<open>int64\<close>.
\<close>

theorem Offset_wraps:
  "(sint (Page p) \<le> 0 \<longrightarrow> Offset p = 0)
   \<and> (1 \<le> sint (Page p) \<longrightarrow>
        sint (Offset p) = signed_take_bit 63 ((sint (Page p) - 1) * sint (PageSize p)))
   \<and> (1 \<le> sint (Page p)
        \<and> - (2 ^ 63) \<le> (sint (Page p) - 1) * sint (PageSize p)
        \<and> (sint (Page p) - 1) * sint (PageSize p) < 2 ^ 63 \<longrightarrow>
        sint (Offset p) = (sint (Page p) - 1) * sint (PageSize p))"
proof -
  have pred: "sint (Page p - 1) = sint (Page p) - 1" if "1 \<le> sint (Page p)"
  proof -
    have "sint (Page p - 1) = signed_take_bit 63 (sint (Page p) - sint (1 :: int64))"
      by (simp add: sint_word_ariths)
    also have "\<dots> = sint (Page p) - 1"
      using that sint_int64_bounds [of "Page p"] by (simp add: signed_take_bit_int_eq_self_iff)
    finally show ?thesis .
  qed
  have wrap: "sint (Offset p) = signed_take_bit 63 ((sint (Page p) - 1) * sint (PageSize p))"
    if "1 \<le> sint (Page p)"
    using that pred by (simp add: Offset_def word_sless_alt sint_word_ariths)
  show ?thesis
    using wrap by (simp add: Offset_def word_sless_alt signed_take_bit_int_eq_self_iff)
qed

theorem Offset_wraps_witness:
  "sint (Page \<lparr>Page = 0, PageSize = 10\<rparr>) \<le> 0 \<and> Offset \<lparr>Page = 0, PageSize = 10\<rparr> = 0
   \<and> 1 \<le> sint (Page \<lparr>Page = 2, PageSize = 10\<rparr>)
   \<and> sint (Offset \<lparr>Page = 2, PageSize = 10\<rparr>) = 10"
  using Offset_wraps [of "\<lparr>Page = 0, PageSize = 10\<rparr>"] Offset_wraps [of "\<lparr>Page = 2, PageSize = 10\<rparr>"]
  by simp

section \<open>Transactions\<close>

lemma errors_Is_refl: "errors_Is e e"
  by (cases e) simp_all

lemma errors_Join_two: "errors_Join [Some a, Some b] = Some (ErrJoin [a, b])"
  by (simp add: errors_Join_def map_filter_simps)

text \<open>
  The second facade's \<open>DoTx\<close> does what claim C1 says: when the work function returns
  an error and the rollback fails too, the returned error is the join of the two, and
  \<open>errors.Is\<close> finds both in it.
\<close>

lemma DoTx_joins_rollback_error:
  assumes "BeginTxx (db s) opt = Inr tx"
    and "fn (injectTx s tx) = Returns (Some err)"
    and "Tx_Rollback tx = Some errRollback"
  shows "\<exists>e. run_result (DoTx s (Some opt) fn) = Returns (Some e)
           \<and> errors_Is e err \<and> errors_Is e errRollback"
  using assms by (simp add: DoTx_def Let_def errors_Join_two errors_Is_refl)

text \<open>
  Claim C1 fails on \<open>sqlxTransaction.DoTx\<close> (db_tx_impl.go, \<open>err = errRollback\<close>): with a
  work function that returns \<open>errors.New("boom")\<close> and a rollback that fails with
  \<open>errors.New("conn closed")\<close>, the call returns the rollback error alone, and the work
  error is not in its chain. The second facade's \<open>DoTx\<close> returns the join at the same
  input.
\<close>

theorem sqlxTransaction_DoTx_drops_work_error:
  "run_result (sqlxTransaction_DoTx (NewSqlxTransaction (ex_DB (Some (ErrNew ''conn closed'')) None))
      (Some ex_opt) (\<lambda>tx. Returns (Some (ErrNew ''boom''))))
     = Returns (Some (ErrNew ''conn closed''))
   \<and> \<not> errors_Is (ErrNew ''conn closed'') (ErrNew ''boom'')
   \<and> run_result (DoTx (NewRdbms (ex_DB (Some (ErrNew ''conn closed'')) None) [])
      (Some ex_opt) (\<lambda>tx. Returns (Some (ErrNew ''boom''))))
     = Returns (Some (ErrJoin [ErrNew ''boom'', ErrNew ''conn closed'']))"
  by (simp add: sqlxTransaction_DoTx_def DoTx_def NewSqlxTransaction_def NewRdbms_def
      ex_DB_def ex_Tx_def Let_def errors_Join_two)

text \<open>
  Claim C2. When the work function returns a non-nil error and the rollback succeeds,
  \<open>DoTx\<close> returns exactly that error, in both transaction runners. The transaction was
  rolled back and not committed.
\<close>

theorem DoTx_returns_work_error:
  "(BeginTxx (db s) opt = Inr tx \<and> fn (injectTx s tx) = Returns (Some err)
      \<and> Tx_Rollback tx = None
    \<longrightarrow> run_result (DoTx s (Some opt) fn) = Returns (Some err)
        \<and> run_events (DoTx s (Some opt) fn) = [EvBeginTxx, EvWork, EvRollback])
   \<and> (BeginTxx (stx_db t) opt = Inr tx \<and> fn0 (NewRdbms0 (Tx_executor tx)) = Returns (Some err)
      \<and> Tx_Rollback tx = None
    \<longrightarrow> run_result (sqlxTransaction_DoTx t (Some opt) fn0) = Returns (Some err)
        \<and> run_events (sqlxTransaction_DoTx t (Some opt) fn0) = [EvBeginTxx, EvWork, EvRollback])"
  by (simp add: DoTx_def sqlxTransaction_DoTx_def Let_def)

theorem DoTx_returns_work_error_witness:
  "BeginTxx (db (NewRdbms (ex_DB None None) [])) ex_opt = Inr (ex_Tx None None)
   \<and> Tx_Rollback (ex_Tx None None) = None
   \<and> run_result (DoTx (NewRdbms (ex_DB None None) []) (Some ex_opt)
        (\<lambda>tx. Returns (Some (ErrNew ''boom'')))) = Returns (Some (ErrNew ''boom''))
   \<and> BeginTxx (stx_db (NewSqlxTransaction (ex_DB None None))) ex_opt = Inr (ex_Tx None None)
   \<and> run_result (sqlxTransaction_DoTx (NewSqlxTransaction (ex_DB None None)) (Some ex_opt)
        (\<lambda>tx. Returns (Some (ErrNew ''boom'')))) = Returns (Some (ErrNew ''boom''))"
  using DoTx_returns_work_error [of "NewRdbms (ex_DB None None) []" ex_opt "ex_Tx None None"
      "\<lambda>tx. Returns (Some (ErrNew ''boom''))" "ErrNew ''boom''"
      "NewSqlxTransaction (ex_DB None None)" "\<lambda>tx. Returns (Some (ErrNew ''boom''))"]
  by (simp add: NewRdbms_def NewSqlxTransaction_def ex_DB_def ex_Tx_def)

text \<open>
  Claim C3. When the work function panics, \<open>DoTx\<close> calls the rollback and then panics
  with the same payload, whatever the rollback answers, in both transaction runners.
\<close>

theorem DoTx_repanics:
  "(BeginTxx (db s) opt = Inr tx \<and> fn (injectTx s tx) = Panics p
    \<longrightarrow> run_result (DoTx s (Some opt) fn) = Panics p
        \<and> run_events (DoTx s (Some opt) fn) = [EvBeginTxx, EvWork, EvRollback])
   \<and> (BeginTxx (stx_db t) opt = Inr tx \<and> fn0 (NewRdbms0 (Tx_executor tx)) = Panics p
    \<longrightarrow> run_result (sqlxTransaction_DoTx t (Some opt) fn0) = Panics p
        \<and> run_events (sqlxTransaction_DoTx t (Some opt) fn0) = [EvBeginTxx, EvWork, EvRollback])"
  by (simp add: DoTx_def sqlxTransaction_DoTx_def Let_def)

theorem DoTx_repanics_witness:
  "BeginTxx (db (NewRdbms (ex_DB (Some (ErrNew ''conn closed'')) None) [])) ex_opt
     = Inr (ex_Tx (Some (ErrNew ''conn closed'')) None)
   \<and> Tx_Rollback (ex_Tx (Some (ErrNew ''conn closed'')) None) = Some (ErrNew ''conn closed'')
   \<and> run_result (DoTx (NewRdbms (ex_DB (Some (ErrNew ''conn closed'')) None) []) (Some ex_opt)
        (\<lambda>tx. Panics (PanicValue ''bang''))) = Panics (PanicValue ''bang'')
   \<and> run_result (sqlxTransaction_DoTx (NewSqlxTransaction (ex_DB (Some (ErrNew ''conn closed'')) None))
        (Some ex_opt) (\<lambda>tx. Panics (PanicValue ''bang''))) = Panics (PanicValue ''bang'')"
  using DoTx_repanics [of "NewRdbms (ex_DB (Some (ErrNew ''conn closed'')) None) []" ex_opt
      "ex_Tx (Some (ErrNew ''conn closed'')) None" "\<lambda>tx. Panics (PanicValue ''bang'')"
      "PanicValue ''bang''" "NewSqlxTransaction (ex_DB (Some (ErrNew ''conn closed'')) None)"
      "\<lambda>tx. Panics (PanicValue ''bang'')"]
  by (simp add: NewRdbms_def NewSqlxTransaction_def ex_DB_def ex_Tx_def)

text \<open>
  Claim C4. When the work function returns nil, \<open>DoTx\<close> calls the commit and no
  rollback, and returns what the commit returned: nil when it succeeded, the commit
  error when it failed. Both transaction runners.
\<close>

theorem DoTx_commits:
  "(BeginTxx (db s) opt = Inr tx \<and> fn (injectTx s tx) = Returns None
    \<longrightarrow> run_result (DoTx s (Some opt) fn) = Returns (Tx_Commit tx)
        \<and> run_events (DoTx s (Some opt) fn) = [EvBeginTxx, EvWork, EvCommit]
        \<and> EvRollback \<notin> set (run_events (DoTx s (Some opt) fn)))
   \<and> (BeginTxx (stx_db t) opt = Inr tx \<and> fn0 (NewRdbms0 (Tx_executor tx)) = Returns None
    \<longrightarrow> run_result (sqlxTransaction_DoTx t (Some opt) fn0) = Returns (Tx_Commit tx)
        \<and> run_events (sqlxTransaction_DoTx t (Some opt) fn0) = [EvBeginTxx, EvWork, EvCommit]
        \<and> EvRollback \<notin> set (run_events (sqlxTransaction_DoTx t (Some opt) fn0)))"
  by (simp add: DoTx_def sqlxTransaction_DoTx_def Let_def split: option.split)

theorem DoTx_commits_witness:
  "BeginTxx (db (NewRdbms (ex_DB None None) [])) ex_opt = Inr (ex_Tx None None)
   \<and> run_result (DoTx (NewRdbms (ex_DB None None) []) (Some ex_opt) (\<lambda>tx. Returns None))
       = Returns None
   \<and> run_result (sqlxTransaction_DoTx (NewSqlxTransaction (ex_DB None (Some (ErrNew ''commit failed''))))
        (Some ex_opt) (\<lambda>tx. Returns None)) = Returns (Some (ErrNew ''commit failed''))"
  using DoTx_commits [of "NewRdbms (ex_DB None None) []" ex_opt "ex_Tx None None"
      "\<lambda>tx. Returns None" "NewSqlxTransaction (ex_DB None None)" "\<lambda>tx. Returns None"]
    DoTx_commits [of "NewRdbms (ex_DB None None) []" ex_opt "ex_Tx None (Some (ErrNew ''commit failed''))"
      "\<lambda>tx. Returns None" "NewSqlxTransaction (ex_DB None (Some (ErrNew ''commit failed'')))"
      "\<lambda>tx. Returns None"]
  by (simp add: NewRdbms_def NewSqlxTransaction_def ex_DB_def ex_Tx_def)

section \<open>Span names\<close>

lemma foldl_apply_option_spanNameFunc:
  "\<not> list_ex is_WithSpanNameFunc opt \<Longrightarrow>
     spanNameFunc (foldl (\<lambda>r o'. apply_option o' r) r0 opt) = spanNameFunc r0"
proof (induction opt arbitrary: r0)
  case Nil
  then show ?case by simp
next
  case (Cons a opt)
  then show ?case by (cases a) simp_all
qed

lemma NewRdbms_default_spanNameFunc:
  "\<not> list_ex is_WithSpanNameFunc opt \<Longrightarrow>
     spanNameFunc (NewRdbms db' opt) = Some defaultSpanNameFN"
  by (simp add: NewRdbms_def foldl_apply_option_spanNameFunc)

lemma query_span_default_panics:
  assumes "length stmt < 15" and "spanNameFunc s = Some defaultSpanNameFN"
  shows "query_span s stmt args = Panics (SliceBounds 15 (length stmt))"
  using assms by (simp add: query_span_def call_spanNameFunc_def defaultSpanNameFN_def)

text \<open>
  Claim C9. For every rendered statement of fewer than 15 bytes the default span-name
  function panics with a slice bound out of range. A facade built by \<open>NewRdbms\<close> with
  no \<open>WithSpanNameFunc\<close> option keeps that function, so \<open>QuerySq\<close>, \<open>ExecSq\<close> and
  \<open>QueryRowSq\<close> panic on such a statement before any span starts and before the
  executor is called. (A Go string is a byte sequence; the length is in bytes.)
\<close>

theorem defaultSpanNameFN_short_statement_panics:
  assumes "length stmt < 15" and "\<not> list_ex is_WithSpanNameFunc opt"
  shows "defaultSpanNameFN stmt = Panics (SliceBounds 15 (length stmt))
    \<and> QuerySq (NewRdbms db' opt) (Inr (stmt, args)) callback
        = \<lparr>run_result = Panics (SliceBounds 15 (length stmt)), run_spans = [], run_events = []\<rparr>
    \<and> ExecSq (NewRdbms db' opt) (Inr (stmt, args))
        = \<lparr>run_result = Panics (SliceBounds 15 (length stmt)), run_spans = [], run_events = []\<rparr>
    \<and> QueryRowSq (NewRdbms db' opt) (Inr (stmt, args)) scanType
        = \<lparr>run_result = Panics (SliceBounds 15 (length stmt)), run_spans = [], run_events = []\<rparr>"
proof -
  have q: "query_span (NewRdbms db' opt) stmt args = Panics (SliceBounds 15 (length stmt))"
    using assms by (simp add: query_span_default_panics NewRdbms_default_spanNameFunc)
  show ?thesis
    using assms(1) q by (simp add: defaultSpanNameFN_def QuerySq_def ExecSq_def QueryRowSq_def)
qed

theorem defaultSpanNameFN_short_statement_panics_witness:
  "length ''SELECT 1'' < 15
   \<and> \<not> list_ex is_WithSpanNameFunc [WithOutIncludeQueryParameters, WithConfig 5432 ''db'' ''app'']
   \<and> run_result (QuerySq (NewRdbms (ex_DB None None)
          [WithOutIncludeQueryParameters, WithConfig 5432 ''db'' ''app''])
        (Inr (''SELECT 1'', [])) (\<lambda>rows. Returns None)) = Panics (SliceBounds 15 8)
   \<and> run_events (ExecSq (NewRdbms (ex_DB None None)
          [WithOutIncludeQueryParameters, WithConfig 5432 ''db'' ''app''])
        (Inr (''SELECT 1'', []))) = []"
  using defaultSpanNameFN_short_statement_panics [of "''SELECT 1''"
      "[WithOutIncludeQueryParameters, WithConfig 5432 ''db'' ''app'']" "ex_DB None None" "[]"
      "\<lambda>rows. Returns None" QueryRowScanTypeDefault]
  by simp

section \<open>Streaming reads\<close>

lemma deferred_close_failed:
  assumes "Rows_Close res = Some errClose"
  shows "(''db.system.close.rows'', AString ''failed'') \<in> set (span_attrs (deferred_close sp res))
    \<and> (\<not> errors_Is errClose sql_ErrNoRows \<longrightarrow> errClose \<in> set (span_errors (deferred_close sp res)))"
  using assms by (simp add: deferred_close_def SetAttributes_def recordError_def)

text \<open>
  Claim C8. When the execute of \<open>QuerySq\<close> succeeds, the rows are closed after the row
  handler and before \<open>QuerySq\<close> ends, and \<open>QuerySq\<close> ends the way the handler did
  (the handler's error, or its panic): the close cannot change it. When the close
  fails, the span carries the attribute \<open>db.system.close.rows = failed\<close>, and the close
  error itself is among the span's recorded errors unless \<open>errors.Is\<close> finds
  \<open>sql.ErrNoRows\<close> in it (which \<open>recordError\<close> skips). Both facades; for the second one
  the span must have started.
\<close>

theorem QuerySq_closes_rows:
  "(QueryxContext (db0 s0) rawQuery args = Inr res \<longrightarrow>
      run_result (QuerySq0 s0 (Inr (rawQuery, args)) callback) = callback res
      \<and> run_events (QuerySq0 s0 (Inr (rawQuery, args)) callback)
          = [EvQueryx rawQuery args, EvCallback, EvRowsClose]
      \<and> (\<exists>sp. run_spans (QuerySq0 s0 (Inr (rawQuery, args)) callback) = [sp]
            \<and> (\<forall>errClose. Rows_Close res = Some errClose \<longrightarrow>
                  (''db.system.close.rows'', AString ''failed'') \<in> set (span_attrs sp)
                  \<and> (\<not> errors_Is errClose sql_ErrNoRows \<longrightarrow> errClose \<in> set (span_errors sp)))))
   \<and> (query_span s rawQuery args = Returns sp0
       \<and> QueryxContext (queryExecutor s) rawQuery args = Inr res \<longrightarrow>
      run_result (QuerySq s (Inr (rawQuery, args)) callback) = callback res
      \<and> run_events (QuerySq s (Inr (rawQuery, args)) callback)
          = [EvQueryx rawQuery args, EvCallback, EvRowsClose]
      \<and> (\<exists>sp. run_spans (QuerySq s (Inr (rawQuery, args)) callback) = [sp]
            \<and> (\<forall>errClose. Rows_Close res = Some errClose \<longrightarrow>
                  (''db.system.close.rows'', AString ''failed'') \<in> set (span_attrs sp)
                  \<and> (\<not> errors_Is errClose sql_ErrNoRows \<longrightarrow> errClose \<in> set (span_errors sp)))))"
  using deferred_close_failed [of res]
  by (simp add: QuerySq0_def QuerySq_def Let_def span_End_def)

theorem QuerySq_closes_rows_witness:
  "QueryxContext (db0 (NewRdbms0 (ex_executor_close (Some (ErrNew ''close failed'')))))
       ''SELECT * FROM users'' [] = Inr \<lparr>Rows_Close = Some (ErrNew ''close failed'')\<rparr>
   \<and> run_result (QuerySq0 (NewRdbms0 (ex_executor_close (Some (ErrNew ''close failed''))))
        (Inr (''SELECT * FROM users'', [])) (\<lambda>rows. Returns (Some (ErrNew ''handler failed''))))
       = Returns (Some (ErrNew ''handler failed''))
   \<and> query_span (NewRdbms (ex_DB_close (Some (ErrNew ''close failed''))) [])
        ''SELECT * FROM users'' []
       = Returns (tracer_Start ''SELECT * FROM u...''
           [(''db.operation.name'', AString ''SELECT * FROM u...''),
            (''db.query.text'', AString ''SELECT * FROM users''),
            (DBArgs, AStringSlice [''[]interface {}: []''])])
   \<and> run_result (QuerySq (NewRdbms (ex_DB_close (Some (ErrNew ''close failed''))) [])
        (Inr (''SELECT * FROM users'', [])) (\<lambda>rows. Returns (Some (ErrNew ''handler failed''))))
       = Returns (Some (ErrNew ''handler failed''))
   \<and> map span_errors (run_spans (QuerySq (NewRdbms (ex_DB_close (Some (ErrNew ''close failed''))) [])
        (Inr (''SELECT * FROM users'', [])) (\<lambda>rows. Returns (Some (ErrNew ''handler failed'')))))
       = [[ErrNew ''close failed'']]"
proof -
  have q: "query_span (NewRdbms (ex_DB_close (Some (ErrNew ''close failed''))) [])
        ''SELECT * FROM users'' []
       = Returns (tracer_Start ''SELECT * FROM u...''
           [(''db.operation.name'', AString ''SELECT * FROM u...''),
            (''db.query.text'', AString ''SELECT * FROM users''),
            (DBArgs, AStringSlice [''[]interface {}: []''])])"
    by (simp add: query_span_def call_spanNameFunc_def commonAttribute_def
        rdbms_sqlOperationName_def NewRdbms_def defaultSpanNameFN_def makeParamAttr_def
        slice_arg_def)
  have e: "QueryxContext (queryExecutor (NewRdbms (ex_DB_close (Some (ErrNew ''close failed''))) []))
       ''SELECT * FROM users'' [] = Inr \<lparr>Rows_Close = Some (ErrNew ''close failed'')\<rparr>"
    by (simp add: NewRdbms_def ex_DB_close_def ex_executor_close_def)
  have e0: "QueryxContext (db0 (NewRdbms0 (ex_executor_close (Some (ErrNew ''close failed'')))))
       ''SELECT * FROM users'' [] = Inr \<lparr>Rows_Close = Some (ErrNew ''close failed'')\<rparr>"
    by (simp add: NewRdbms0_def ex_executor_close_def)
  have sp: "map span_errors (run_spans (QuerySq (NewRdbms (ex_DB_close (Some (ErrNew ''close failed''))) [])
        (Inr (''SELECT * FROM users'', [])) (\<lambda>rows. Returns (Some (ErrNew ''handler failed'')))))
       = [[ErrNew ''close failed'']]"
    using q e
    by (simp add: QuerySq_def deferred_close_def recordError_def SetAttributes_def span_End_def
        tracer_Start_def sql_ErrNoRows_def)
  show ?thesis
    using QuerySq_closes_rows [of "NewRdbms0 (ex_executor_close (Some (ErrNew ''close failed'')))"
        "''SELECT * FROM users''" "[]" "\<lparr>Rows_Close = Some (ErrNew ''close failed'')\<rparr>"
        "\<lambda>rows. Returns (Some (ErrNew ''handler failed''))"
        "NewRdbms (ex_DB_close (Some (ErrNew ''close failed''))) []"
        "tracer_Start ''SELECT * FROM u...''
           [(''db.operation.name'', AString ''SELECT * FROM u...''),
            (''db.query.text'', AString ''SELECT * FROM users''),
            (DBArgs, AStringSlice [''[]interface {}: []''])]"]
      q e e0 sp
    by simp
qed

section \<open>Single-row reads\<close>

lemma errors_Is_errTracer: "errors_Is (errTracer f l (Some e)) target \<longleftrightarrow>
    errTracer f l (Some e) = target \<or> errors_Is e target"
  by (simp add: errTracer_def)

text \<open>
  The first facade's \<open>QueryRowSq\<close> does what claim C5 says: when the scan's error has
  \<open>sql.ErrNoRows\<close> in its chain, the returned error has \<open>ErrRecordNoRows\<close> in its chain,
  behind the call-site tag, and the span records no error.
\<close>

lemma QueryRowSq0_marks_no_rows:
  assumes "Row_Scan (QueryRowxContext (db0 s) rawQuery args) = Inl err"
    and "errors_Is err sql_ErrNoRows"
    and "scanType \<noteq> QueryRowScanTypeStruct"
  shows "\<exists>e sp. run_result (QueryRowSq0 s (Inr (rawQuery, args)) scanType) = Returns (Some e, None)
           \<and> errors_Is e ErrRecordNoRows \<and> errors_Is e sql_ErrNoRows
           \<and> run_spans (QueryRowSq0 s (Inr (rawQuery, args)) scanType) = [sp]
           \<and> span_errors sp = [] \<and> span_status sp = None"
  using assms
  by (simp add: QueryRowSq0_def Let_def errors_Join_two errors_Is_errTracer errors_Is_refl
      span_End_def query_span0_def tracer_Start_def)

text \<open>
  In the second facade no error is recorded on the span for a missing row either.
\<close>

lemma QueryRowSq_no_rows_not_recorded:
  assumes "query_span s rawQuery args = Returns sp0"
    and "Row_Scan (QueryRowxContext (queryExecutor s) rawQuery args) = Inl err"
    and "errors_Is err sql_ErrNoRows"
    and "scanType \<noteq> QueryRowScanTypeStruct"
  shows "run_spans (QueryRowSq s (Inr (rawQuery, args)) scanType) = [span_End sp0]"
  using assms by (simp add: QueryRowSq_def Let_def)

text \<open>
  Claim C5 fails on the second facade's \<open>QueryRowSq\<close> (rdbms_impl.go): it tags the scan's
  error and returns it without joining \<open>ErrRecordNoRows\<close>. On a driver that finds no
  row, the returned error wraps \<open>sql.ErrNoRows\<close> only, and \<open>errors.Is\<close> does not find the
  sentinel in it; the first facade's \<open>QueryRowSq\<close> returns the join at the same input.
  Neither records an error on the span.
\<close>

theorem QueryRowSq_misses_sentinel:
  "run_result (QueryRowSq (NewRdbms ex_DB_norows [])
       (Inr (''SELECT id FROM users WHERE id = ?'', [(''int'', ''1'')])) QueryRowScanTypeDefault)
     = Returns (Some (errTracer ''.(*rdbms).QueryRowSq'' 221 (Some sql_ErrNoRows)), None)
   \<and> \<not> errors_Is (errTracer ''.(*rdbms).QueryRowSq'' 221 (Some sql_ErrNoRows)) ErrRecordNoRows
   \<and> map span_errors (run_spans (QueryRowSq (NewRdbms ex_DB_norows [])
       (Inr (''SELECT id FROM users WHERE id = ?'', [(''int'', ''1'')])) QueryRowScanTypeDefault))
     = [[]]
   \<and> run_result (QueryRowSq0 (NewRdbms0 ex_executor_norows)
       (Inr (''SELECT id FROM users WHERE id = ?'', [(''int'', ''1'')])) QueryRowScanTypeDefault)
     = Returns (Some (errTracer ''.(*rdbms).QueryRowSq'' 109
          (Some (ErrJoin [sql_ErrNoRows, ErrRecordNoRows]))), None)
   \<and> errors_Is (errTracer ''.(*rdbms).QueryRowSq'' 109
          (Some (ErrJoin [sql_ErrNoRows, ErrRecordNoRows]))) ErrRecordNoRows"
proof -
  have q: "query_span (NewRdbms ex_DB_norows []) ''SELECT id FROM users WHERE id = ?'' [(''int'', ''1'')]
      = Returns (tracer_Start ''SELECT id FROM ...''
           [(''db.operation.name'', AString ''SELECT id FROM ...''),
            (''db.query.text'', AString ''SELECT id FROM users WHERE id = ?''),
            (DBArgs, AStringSlice [''[]interface {}: [1]''])])"
    by (simp add: query_span_def call_spanNameFunc_def commonAttribute_def
        rdbms_sqlOperationName_def NewRdbms_def defaultSpanNameFN_def makeParamAttr_def
        slice_arg_def)
  have s: "Row_Scan (QueryRowxContext (queryExecutor (NewRdbms ex_DB_norows [])) q a) = Inl sql_ErrNoRows"
    for q a
    by (simp add: NewRdbms_def ex_DB_norows_def ex_executor_norows_def)
  have s0: "Row_Scan (QueryRowxContext (db0 (NewRdbms0 ex_executor_norows)) q a) = Inl sql_ErrNoRows"
    for q a
    by (simp add: NewRdbms0_def ex_executor_norows_def)
  have d: "QueryRowScanTypeDefault \<noteq> QueryRowScanTypeStruct"
    by (simp add: QueryRowScanTypeDefault_def QueryRowScanTypeStruct_def)
  have n: "\<not> errors_Is (errTracer ''.(*rdbms).QueryRowSq'' 221 (Some sql_ErrNoRows)) ErrRecordNoRows"
    by (simp add: errTracer_def sql_ErrNoRows_def ErrRecordNoRows_def)
  have y: "errors_Is (errTracer ''.(*rdbms).QueryRowSq'' 109
          (Some (ErrJoin [sql_ErrNoRows, ErrRecordNoRows]))) ErrRecordNoRows"
    by (simp add: errors_Is_errTracer errors_Is_refl)
  have r: "run_result (QueryRowSq (NewRdbms ex_DB_norows [])
       (Inr (''SELECT id FROM users WHERE id = ?'', [(''int'', ''1'')])) QueryRowScanTypeDefault)
     = Returns (Some (errTracer ''.(*rdbms).QueryRowSq'' 221 (Some sql_ErrNoRows)), None)"
    using q s d by (simp add: QueryRowSq_def Let_def)
  have sp: "map span_errors (run_spans (QueryRowSq (NewRdbms ex_DB_norows [])
       (Inr (''SELECT id FROM users WHERE id = ?'', [(''int'', ''1'')])) QueryRowScanTypeDefault))
     = [[]]"
    using q s d by (simp add: QueryRowSq_def Let_def errors_Is_refl span_End_def tracer_Start_def)
  have r0: "run_result (QueryRowSq0 (NewRdbms0 ex_executor_norows)
       (Inr (''SELECT id FROM users WHERE id = ?'', [(''int'', ''1'')])) QueryRowScanTypeDefault)
     = Returns (Some (errTracer ''.(*rdbms).QueryRowSq'' 109
          (Some (ErrJoin [sql_ErrNoRows, ErrRecordNoRows]))), None)"
    using s0 d by (simp add: QueryRowSq0_def Let_def errors_Is_refl errors_Join_two)
  show ?thesis using n y r sp r0 by simp
qed

section \<open>Paginated reads\<close>

lemma uint_uint64: "uint (uint64 x) = sint x mod 2 ^ 64"
  unfolding uint64_def uint_word_of_int by simp

lemma uint_uint64_negative:
  assumes "sint x < 0"
  shows "uint (uint64 x) = 2 ^ 64 + sint x \<and> 2 ^ 63 \<le> uint (uint64 x)"
proof -
  have b: "- (2 ^ 63) \<le> sint x" using sint_int64_bounds [of x] by simp
  have "sint x mod 2 ^ 64 = (sint x + 2 ^ 64) mod 2 ^ 64" by simp
  also have "\<dots> = sint x + 2 ^ 64" using assms b by (intro mod_pos_pos_trivial) simp_all
  finally have "uint (uint64 x) = 2 ^ 64 + sint x" by (simp add: uint_uint64)
  then show ?thesis using b by simp
qed

lemma paginate_fields:
  "sb_limit (paginate q p) = Some (uint64 (PageSize p))
   \<and> sb_offset (paginate q p) = Some (uint64 (Offset p))
   \<and> sb_ToSql (paginate q p) = sb_render q (Some (uint64 (PageSize p))) (Some (uint64 (Offset p)))"
  by (simp add: paginate_def sb_Limit_def sb_Offset_def sb_ToSql_def Let_def)

lemma QuerySq0_calls_executor:
  "EvQueryx stmt args \<in> set (run_events (QuerySq0 s (Inr (stmt, args)) cb))"
  by (simp add: QuerySq0_def Let_def split: sum.split)

lemma QuerySq_calls_executor:
  "query_span s stmt args = Returns sp \<Longrightarrow>
     EvQueryx stmt args \<in> set (run_events (QuerySq s (Inr (stmt, args)) cb))"
  by (simp add: QuerySq_def Let_def split: sum.split)

lemma QuerySqPagination0_runs_row_query:
  assumes "run_result (QueryRowSq0 s (sb_ToSql cq) QueryRowScanTypeDefault) = Returns (None, t)"
    and "sb_ToSql (paginate q p) = Inr (stmt, args)"
  shows "EvQueryx stmt args \<in> set (run_events (QuerySqPagination0 s cq q p cb))"
  using assms QuerySq0_calls_executor [of stmt args s cb]
  by (simp add: QuerySqPagination0_def Let_def split: outcome.split option.split)

lemma QuerySqPagination_runs_row_query:
  assumes "run_result (QueryRowSq s (sb_ToSql cq) QueryRowScanTypeDefault) = Returns (None, t)"
    and "sb_ToSql (paginate q p) = Inr (stmt, args)"
    and "query_span s stmt args = Returns sp"
  shows "EvQueryx stmt args \<in> set (run_events (QuerySqPagination s cq q p cb))"
  using assms QuerySq_calls_executor [of s stmt args sp cb]
  by (simp add: QuerySqPagination_def Let_def split: outcome.split option.split)

text \<open>
  Claim C10. When the page size is negative, or the computed offset is negative,
  \<open>QuerySqPagination\<close> converts the negative \<open>int64\<close> to \<open>uint64\<close>: the limit and the
  offset put on the row query are the values modulo \<open>2^64\<close>, that is \<open>2^64\<close> plus the
  negative value, at least \<open>2^63\<close>. Nothing rejects or clamps them: once the count
  query has succeeded, the row query rendered with these values is sent to the
  executor (in the second facade, provided its span starts).
\<close>

theorem QuerySqPagination_negative_wraps:
  assumes "sint (PageSize p) < 0 \<or> sint (Offset p) < 0"
  shows "\<exists>l off.
      sb_limit (paginate q p) = Some l \<and> sb_offset (paginate q p) = Some off
      \<and> uint l = sint (PageSize p) mod 2 ^ 64 \<and> uint off = sint (Offset p) mod 2 ^ 64
      \<and> (sint (PageSize p) < 0 \<longrightarrow> uint l = 2 ^ 64 + sint (PageSize p) \<and> 2 ^ 63 \<le> uint l)
      \<and> (sint (Offset p) < 0 \<longrightarrow> uint off = 2 ^ 64 + sint (Offset p) \<and> 2 ^ 63 \<le> uint off)
      \<and> (\<forall>t stmt args.
            run_result (QueryRowSq0 s0 (sb_ToSql cq) QueryRowScanTypeDefault) = Returns (None, t)
            \<and> sb_render q (Some l) (Some off) = Inr (stmt, args)
            \<longrightarrow> EvQueryx stmt args \<in> set (run_events (QuerySqPagination0 s0 cq q p cb)))
      \<and> (\<forall>t stmt args sp.
            run_result (QueryRowSq s (sb_ToSql cq) QueryRowScanTypeDefault) = Returns (None, t)
            \<and> sb_render q (Some l) (Some off) = Inr (stmt, args)
            \<and> query_span s stmt args = Returns sp
            \<longrightarrow> EvQueryx stmt args \<in> set (run_events (QuerySqPagination s cq q p cb)))"
proof (intro exI conjI)
  show "sb_limit (paginate q p) = Some (uint64 (PageSize p))" by (simp add: paginate_fields)
  show "sb_offset (paginate q p) = Some (uint64 (Offset p))" by (simp add: paginate_fields)
  show "uint (uint64 (PageSize p)) = sint (PageSize p) mod 2 ^ 64" by (rule uint_uint64)
  show "uint (uint64 (Offset p)) = sint (Offset p) mod 2 ^ 64" by (rule uint_uint64)
  show "sint (PageSize p) < 0 \<longrightarrow>
      uint (uint64 (PageSize p)) = 2 ^ 64 + sint (PageSize p) \<and> 2 ^ 63 \<le> uint (uint64 (PageSize p))"
    using uint_uint64_negative [of "PageSize p"] by blast
  show "sint (Offset p) < 0 \<longrightarrow>
      uint (uint64 (Offset p)) = 2 ^ 64 + sint (Offset p) \<and> 2 ^ 63 \<le> uint (uint64 (Offset p))"
    using uint_uint64_negative [of "Offset p"] by blast
  show "\<forall>t stmt args.
      run_result (QueryRowSq0 s0 (sb_ToSql cq) QueryRowScanTypeDefault) = Returns (None, t)
      \<and> sb_render q (Some (uint64 (PageSize p))) (Some (uint64 (Offset p))) = Inr (stmt, args)
      \<longrightarrow> EvQueryx stmt args \<in> set (run_events (QuerySqPagination0 s0 cq q p cb))"
    using QuerySqPagination0_runs_row_query [of s0 cq _ q p] by (simp add: paginate_fields)
  show "\<forall>t stmt args sp.
      run_result (QueryRowSq s (sb_ToSql cq) QueryRowScanTypeDefault) = Returns (None, t)
      \<and> sb_render q (Some (uint64 (PageSize p))) (Some (uint64 (Offset p))) = Inr (stmt, args)
      \<and> query_span s stmt args = Returns sp
      \<longrightarrow> EvQueryx stmt args \<in> set (run_events (QuerySqPagination s cq q p cb))"
    using QuerySqPagination_runs_row_query [of s cq _ q p] by (simp add: paginate_fields)
qed

theorem QuerySqPagination_negative_wraps_witness:
  "sint (PageSize \<lparr>Page = 2, PageSize = - 10\<rparr>) < 0
   \<and> sb_limit (paginate (ex_select ''SELECT * FROM users'') \<lparr>Page = 2, PageSize = - 10\<rparr>)
       = Some 18446744073709551606
   \<and> sb_offset (paginate (ex_select ''SELECT * FROM users'') \<lparr>Page = 2, PageSize = - 10\<rparr>)
       = Some 18446744073709551606
   \<and> run_result (QueryRowSq0 (NewRdbms0 ex_executor)
         (sb_ToSql (ex_select ''SELECT COUNT(*) FROM users'')) QueryRowScanTypeDefault)
       = Returns (None, Some 25)
   \<and> EvQueryx ''SELECT * FROM users LIMIT 18446744073709551606 OFFSET 18446744073709551606'' []
       \<in> set (run_events (QuerySqPagination0 (NewRdbms0 ex_executor)
             (ex_select ''SELECT COUNT(*) FROM users'') (ex_select ''SELECT * FROM users'')
             \<lparr>Page = 2, PageSize = - 10\<rparr> (\<lambda>rows. Returns None)))"
proof -
  let ?p = "\<lparr>Page = 2, PageSize = - 10\<rparr>"
  let ?q = "ex_select ''SELECT * FROM users''"
  let ?cq = "ex_select ''SELECT COUNT(*) FROM users''"
  let ?s0 = "NewRdbms0 ex_executor"
  have neg: "sint (PageSize ?p) < 0" by simp
  have o: "Offset ?p = - 10" by (simp add: Offset_def word_sless_alt)
  have lim: "sb_limit (paginate ?q ?p) = Some 18446744073709551606"
    by (simp add: paginate_fields uint64_def)
  have off: "sb_offset (paginate ?q ?p) = Some 18446744073709551606"
    using o by (simp add: paginate_fields uint64_def)
  have d: "QueryRowScanTypeDefault \<noteq> QueryRowScanTypeStruct"
    by (simp add: QueryRowScanTypeDefault_def QueryRowScanTypeStruct_def)
  have cnt: "run_result (QueryRowSq0 ?s0 (sb_ToSql ?cq) QueryRowScanTypeDefault)
      = Returns (None, Some 25)"
    using d by (simp add: QueryRowSq0_def Let_def sb_ToSql_def ex_select_def NewRdbms0_def
        ex_executor_def)
  have n: "show_nat 18446744073709551606 = ''18446744073709551606''"
    by (simp add: char_of_eq_iff)
  have ren: "sb_render ?q (Some 18446744073709551606) (Some 18446744073709551606)
      = Inr (''SELECT * FROM users LIMIT 18446744073709551606 OFFSET 18446744073709551606'', [])"
    using n by (simp add: ex_select_def)
  from QuerySqPagination_negative_wraps [of ?p ?q ?s0 ?cq "\<lambda>rows. Returns None"
      "NewRdbms (ex_DB None None) []"] neg
  obtain l off' where
    l: "sb_limit (paginate ?q ?p) = Some l" and o': "sb_offset (paginate ?q ?p) = Some off'"
    and run: "\<forall>t stmt args.
            run_result (QueryRowSq0 ?s0 (sb_ToSql ?cq) QueryRowScanTypeDefault) = Returns (None, t)
            \<and> sb_render ?q (Some l) (Some off') = Inr (stmt, args)
            \<longrightarrow> EvQueryx stmt args
                 \<in> set (run_events (QuerySqPagination0 ?s0 ?cq ?q ?p (\<lambda>rows. Returns None)))"
    by blast
  from l lim have l': "l = 18446744073709551606" by simp
  from o' off have o'': "off' = 18446744073709551606" by simp
  from run cnt ren l' o''
  have "EvQueryx ''SELECT * FROM users LIMIT 18446744073709551606 OFFSET 18446744073709551606'' []
       \<in> set (run_events (QuerySqPagination0 ?s0 ?cq ?q ?p (\<lambda>rows. Returns None)))"
    by blast
  with neg lim off cnt show ?thesis by blast
qed

end
